theory Spec2Isabelle
  imports Complex_Main
begin

section \<open>AGV manager: values, exceptions and effects\<close>

text \<open>
  The program is \<^verbatim>\<open>backend/agv_manager.py\<close>: an MQTT callback \<^verbatim>\<open>on_message\<close> that
  decodes a payload, stores it with \<^verbatim>\<open>save_to_db\<close> and lets \<^verbatim>\<open>process_and_control\<close>
  decide whether to publish a return command.

  Python is dynamically typed, so the value returned by \<^verbatim>\<open>json.loads\<close> is modelled as the
  datatype \<open>json\<close> of everything the parser can return. A Python \<^verbatim>\<open>float\<close> is kept as
  the rational it denotes or one of the three special values; only its comparison with an
  integer is used, which Python performs exactly. A \<^verbatim>\<open>dict\<close> is the list of its items:
  keys of a dict are unique, and \<open>map_of\<close> is the lookup. Strings are byte strings: the
  UTF-8 form of the Python text, a lone surrogate such as U+D800 taking the three bytes
  its code point would have. Splitting at the ASCII character \<open>/\<close> is the same on
  both.
\<close>

datatype pyfloat = Finite rat | PosInf | NegInf | NaN

datatype json =
    JNull
  | JBool bool
  | JInt int
  | JFloat pyfloat
  | JStr string
  | JArr "json list"
  | JObj "(string \<times> json) list"

text \<open>The exceptions the program can meet; all of them derive from \<^verbatim>\<open>Exception\<close>.\<close>

datatype exn =
    UnicodeDecodeError
  | JSONDecodeError
  | RecursionError
  | AttributeError
  | TypeError
  | IndexError
  | MySQLError
  | ValueError
  | UnboundLocalError
  | UnicodeEncodeError

text \<open>The lines written by \<^verbatim>\<open>print\<close>, one constructor per call site.\<close>

datatype diag =
    Saved json json json
  | SaveError exn
  | Judged json json
  | Sent string
  | NotJson string
  | MsgError exn

text \<open>
  Every call that leaves the process, and every entry into one of the two pipeline
  functions, is an event. An event records that the call was made; whether it raised is
  decided by the world below. The body handed to \<^verbatim>\<open>client.publish\<close> is
  \<^verbatim>\<open>json.dumps(command_payload)\<close>; the event keeps the dict that is serialised.
\<close>

datatype event =
    Call_save_to_db json
  | Get_db_connection
  | Conn_cursor
  | Cursor_execute json json json string
  | Conn_commit
  | Conn_close
  | Call_process_and_control json
  | Client_publish string json
  | Print diag

text \<open>
  The world fixes, for the time one message is handled, what the library calls do:
  the two decoders, which database and broker calls raise, which lines \<^verbatim>\<open>print\<close>
  cannot write (a string the encoding of the standard output lacks, a closed stream), and
  the two clock readings. The clock is taken not to raise.
\<close>

record world =
  decode_utf8 :: "string \<Rightarrow> string option"
  json_loads :: "string \<Rightarrow> exn + json"
  connect_raises :: bool
  cursor_raises :: bool
  execute_raises :: "json \<Rightarrow> json \<Rightarrow> json \<Rightarrow> bool"
  commit_raises :: bool
  close_raises :: bool
  publish_raises :: "string \<Rightarrow> json \<Rightarrow> bool"
  print_raises :: "diag \<Rightarrow> bool"
  datetime_now :: string
  time_time :: pyfloat

section \<open>Python primitives used by the program\<close>

text \<open>\<^verbatim>\<open>data.get(key, default)\<close>: only a dict has the method.\<close>

fun py_get :: "json \<Rightarrow> string \<Rightarrow> json \<Rightarrow> exn + json" where
  "py_get (JObj kvs) k d = Inr (case map_of kvs k of None \<Rightarrow> d | Some v \<Rightarrow> v)"
| "py_get _ k d = Inl AttributeError"

fun float_lt_int :: "pyfloat \<Rightarrow> int \<Rightarrow> bool" where
  "float_lt_int (Finite q) n = (q < of_int n)"
| "float_lt_int NegInf n = True"
| "float_lt_int PosInf n = False"
| "float_lt_int NaN n = False"

text \<open>\<^verbatim>\<open>x < n\<close> for an integer \<open>n\<close>: numbers (and booleans, which are integers) compare,
  everything else raises \<^verbatim>\<open>TypeError\<close>.\<close>

fun py_lt_int :: "json \<Rightarrow> int \<Rightarrow> exn + bool" where
  "py_lt_int (JInt i) n = Inr (i < n)"
| "py_lt_int (JBool b) n = Inr ((if b then 1 else 0) < n)"
| "py_lt_int (JFloat f) n = Inr (float_lt_int f n)"
| "py_lt_int _ n = Inl TypeError"

text \<open>\<^verbatim>\<open>s.split(c)\<close> on a string: the pieces between the separators, never an empty list.\<close>

fun split_str :: "char \<Rightarrow> string \<Rightarrow> string list" where
  "split_str c [] = [[]]"
| "split_str c (x # xs) =
     (if x = c then [] # split_str c xs
      else (case split_str c xs of
              [] \<Rightarrow> [[x]]
            | w # ws \<Rightarrow> (x # w) # ws))"

text \<open>\<^verbatim>\<open>agv_id.split('/')\<close>: only a string has the method.\<close>

fun py_split :: "json \<Rightarrow> char \<Rightarrow> exn + string list" where
  "py_split (JStr s) c = Inr (split_str c s)"
| "py_split _ c = Inl AttributeError"

text \<open>\<^verbatim>\<open>xs[-1]\<close>: the last element, \<^verbatim>\<open>IndexError\<close> on an empty list.\<close>

definition py_last :: "'a list \<Rightarrow> exn + 'a" where
  "py_last xs = (if xs = [] then Inl IndexError else Inr (last xs))"

section \<open>The program\<close>

definition CONTROL_TOPIC_BASE :: string where
  "CONTROL_TOPIC_BASE = ''factory/control''"

text \<open>
  The \<^verbatim>\<open>try\<close> block of \<^verbatim>\<open>save_to_db\<close>. The result says whether \<^verbatim>\<open>conn\<close> was bound,
  which calls were made, and the exception that ended the block, if any.
\<close>

definition save_to_db_try :: "world \<Rightarrow> json \<Rightarrow> bool \<times> event list \<times> exn option" where
  "save_to_db_try w data =
    (if connect_raises w then (False, [Get_db_connection], Some MySQLError)
     else if cursor_raises w then (True, [Get_db_connection, Conn_cursor], Some MySQLError)
     else
      (let now = datetime_now w in
       case py_get data ''agv_id'' (JStr ''Unknown'') of
         Inl e \<Rightarrow> (True, [Get_db_connection, Conn_cursor], Some e)
       | Inr agv_id \<Rightarrow>
      (case py_get data ''battery'' (JInt 0) of
         Inl e \<Rightarrow> (True, [Get_db_connection, Conn_cursor], Some e)
       | Inr battery \<Rightarrow>
      (case py_get data ''status'' (JStr ''Unknown'') of
         Inl e \<Rightarrow> (True, [Get_db_connection, Conn_cursor], Some e)
       | Inr status \<Rightarrow>
          if execute_raises w agv_id battery status
          then (True, [Get_db_connection, Conn_cursor,
                       Cursor_execute agv_id battery status now], Some MySQLError)
          else if commit_raises w
          then (True, [Get_db_connection, Conn_cursor,
                       Cursor_execute agv_id battery status now, Conn_commit],
                Some MySQLError)
          else if print_raises w (Saved agv_id status battery)
          then (True, [Get_db_connection, Conn_cursor,
                       Cursor_execute agv_id battery status now, Conn_commit,
                       Print (Saved agv_id status battery)], Some UnicodeEncodeError)
          else (True, [Get_db_connection, Conn_cursor,
                       Cursor_execute agv_id battery status now, Conn_commit,
                       Print (Saved agv_id status battery)], None)))))"

text \<open>
  \<^verbatim>\<open>save_to_db\<close>: the \<^verbatim>\<open>except Exception\<close> clause prints and swallows whatever the block
  raised; the \<^verbatim>\<open>finally\<close> clause closes the connection if one was bound (a connection
  object is true in \<^verbatim>\<open>if conn\<close>). Two exceptions can leave the function: that of the
  \<^verbatim>\<open>print\<close> in the \<^verbatim>\<open>except\<close> clause, which is pending while the \<^verbatim>\<open>finally\<close> clause
  runs, and that of \<^verbatim>\<open>conn.close()\<close>, which replaces a pending one.
\<close>

definition save_to_db :: "world \<Rightarrow> json \<Rightarrow> event list \<times> exn option" where
  "save_to_db w data =
    (case save_to_db_try w data of (conn, tr, raised) \<Rightarrow>
      (case (case raised of
               None \<Rightarrow> (tr, None)
             | Some e \<Rightarrow>
                 (tr @ [Print (SaveError e)],
                  if print_raises w (SaveError e) then Some UnicodeEncodeError else None)) of
         (tr1, pending) \<Rightarrow>
           if conn
           then (tr1 @ [Conn_close], if close_raises w then Some MySQLError else pending)
           else (tr1, pending)))"

text \<open>
  \<^verbatim>\<open>process_and_control\<close>: the rule and the publication of the command. The decision is
  printed before anything else is done with it, so a failing \<^verbatim>\<open>print\<close> ends the function
  before the command is built. \<^verbatim>\<open>json.dumps\<close> is reached only after the split, hence with
  a string under \<^verbatim>\<open>target_id\<close>, and cannot fail on such a dict.
\<close>

definition process_and_control :: "world \<Rightarrow> json \<Rightarrow> event list \<times> exn option" where
  "process_and_control w data =
    (case py_get data ''agv_id'' (JStr ''Unknown'') of
       Inl e \<Rightarrow> ([], Some e)
     | Inr agv_id \<Rightarrow>
    (case py_get data ''battery'' (JInt 0) of
       Inl e \<Rightarrow> ([], Some e)
     | Inr battery \<Rightarrow>
    (case py_get data ''status'' (JStr ''Unknown'') of
       Inl e \<Rightarrow> ([], Some e)
     | Inr status \<Rightarrow>
    (case py_lt_int battery 20 of
       Inl e \<Rightarrow> ([], Some e)
     | Inr low \<Rightarrow>
        if low \<and> status = JStr ''MOVING'' then
          if print_raises w (Judged agv_id battery)
          then ([Print (Judged agv_id battery)], Some UnicodeEncodeError)
          else
          (let command_payload = JObj
                 [(''target_id'', agv_id),
                  (''command'', JStr ''RETURN_TO_BASE''),
                  (''reason'', JStr ''Low Battery''),
                  (''timestamp'', JFloat (time_time w))] in
           case py_split agv_id (CHR ''/'') of
             Inl e \<Rightarrow> ([Print (Judged agv_id battery)], Some e)
           | Inr parts \<Rightarrow>
          (case py_last parts of
             Inl e \<Rightarrow> ([Print (Judged agv_id battery)], Some e)
           | Inr short_id \<Rightarrow>
              (let target_topic = CONTROL_TOPIC_BASE @ ''/'' @ short_id in
               if publish_raises w target_topic command_payload
               then ([Print (Judged agv_id battery),
                      Client_publish target_topic command_payload], Some ValueError)
               else if print_raises w (Sent target_topic)
               then ([Print (Judged agv_id battery),
                      Client_publish target_topic command_payload,
                      Print (Sent target_topic)], Some UnicodeEncodeError)
               else ([Print (Judged agv_id battery),
                      Client_publish target_topic command_payload,
                      Print (Sent target_topic)], None))))
        else ([], None)))))"

text \<open>The \<^verbatim>\<open>try\<close> block of \<^verbatim>\<open>on_message\<close>.\<close>

definition on_message_try :: "world \<Rightarrow> string \<Rightarrow> event list \<times> exn option" where
  "on_message_try w bytes =
    (case decode_utf8 w bytes of
       None \<Rightarrow> ([], Some UnicodeDecodeError)
     | Some payload \<Rightarrow>
    (case json_loads w payload of
       Inl e \<Rightarrow> ([], Some e)
     | Inr data \<Rightarrow>
    (case save_to_db w data of
       (tr1, Some e) \<Rightarrow> (Call_save_to_db data # tr1, Some e)
     | (tr1, None) \<Rightarrow>
    (case process_and_control w data of
       (tr2, r) \<Rightarrow>
         (Call_save_to_db data # tr1 @ Call_process_and_control data # tr2, r)))))"

text \<open>
  \<^verbatim>\<open>on_message\<close>: \<^verbatim>\<open>except json.JSONDecodeError\<close> prints the payload text, and
  reading \<^verbatim>\<open>payload\<close> raises if the decoding to text never bound it;
  \<^verbatim>\<open>except Exception\<close> takes every other exception. Nothing protects the \<^verbatim>\<open>print\<close> of
  a handler. The second component is the exception that leaves the callback.
\<close>

definition on_message :: "world \<Rightarrow> string \<Rightarrow> event list \<times> exn option" where
  "on_message w bytes =
    (case on_message_try w bytes of
       (tr, None) \<Rightarrow> (tr, None)
     | (tr, Some e) \<Rightarrow>
         if e = JSONDecodeError
         then (case decode_utf8 w bytes of
                 None \<Rightarrow> (tr, Some UnboundLocalError)
               | Some payload \<Rightarrow>
                   (tr @ [Print (NotJson payload)],
                    if print_raises w (NotJson payload) then Some UnicodeEncodeError
                    else None))
         else (tr @ [Print (MsgError e)],
               if print_raises w (MsgError e) then Some UnicodeEncodeError else None))"

text \<open>
  The client's network loop hands the messages to the callback one after the other, each
  in the world of its moment, and is left by the first exception the callback lets out.
\<close>

fun deliver :: "(world \<times> string) list \<Rightarrow> event list \<times> exn option" where
  "deliver [] = ([], None)"
| "deliver ((w, bytes) # rest) =
     (case on_message w bytes of
        (tr, Some e) \<Rightarrow> (tr, Some e)
      | (tr, None) \<Rightarrow> (case deliver rest of (tr', r) \<Rightarrow> (tr @ tr', r)))"

section \<open>Reading a trace\<close>

fun publications :: "event list \<Rightarrow> (string \<times> json) list" where
  "publications [] = []"
| "publications (Client_publish t b # es) = (t, b) # publications es"
| "publications (_ # es) = publications es"

fun inserts :: "event list \<Rightarrow> (json \<times> json \<times> json \<times> string) list" where
  "inserts [] = []"
| "inserts (Cursor_execute a b s n # es) = (a, b, s, n) # inserts es"
| "inserts (_ # es) = inserts es"

text \<open>
  The pipeline stage an event belongs to: 1 for \<^verbatim>\<open>save_to_db\<close> and the database calls
  it makes, 2 for the entry into \<^verbatim>\<open>process_and_control\<close>, 3 for \<^verbatim>\<open>client.publish\<close>.
  A printed line belongs to no stage.
\<close>

fun stage :: "event \<Rightarrow> nat option" where
  "stage (Call_save_to_db _) = Some 1"
| "stage Get_db_connection = Some 1"
| "stage Conn_cursor = Some 1"
| "stage (Cursor_execute _ _ _ _) = Some 1"
| "stage Conn_commit = Some 1"
| "stage Conn_close = Some 1"
| "stage (Call_process_and_control _) = Some 2"
| "stage (Client_publish _ _) = Some 3"
| "stage (Print _) = None"

fun stages :: "event list \<Rightarrow> nat list" where
  "stages [] = []"
| "stages (e # es) = (case stage e of None \<Rightarrow> stages es | Some n \<Rightarrow> n # stages es)"

fun is_call_save :: "event \<Rightarrow> bool" where
  "is_call_save (Call_save_to_db _) = True"
| "is_call_save _ = False"

section \<open>Sample inputs\<close>

text \<open>
  The reading of the specification's scenario with its payload text, and a world in
  which no library call raises, ASCII bytes decode to themselves and the parser returns
  that reading.
\<close>

definition reading_007 :: json where
  "reading_007 = JObj [(''agv_id'', JStr ''factory/agv/007''), (''battery'', JInt 15),
                       (''status'', JStr ''MOVING'')]"

definition payload_007 :: string where
  \<open>payload_007 = ''{"agv_id":"factory/agv/007","battery":15,"status":"MOVING"}''\<close>

definition calm :: world where
  "calm = \<lparr> decode_utf8 = Some, json_loads = (\<lambda>_. Inr reading_007),
     connect_raises = False, cursor_raises = False,
     execute_raises = (\<lambda>_ _ _. False), commit_raises = False, close_raises = False,
     publish_raises = (\<lambda>_ _. False), print_raises = (\<lambda>_. False),
     datetime_now = ''2025-01-01 00:00:00'',
     time_time = Finite 1 \<rparr>"

text \<open>Further readings, each with the text that parses to it.\<close>

definition reading_001 :: json where
  "reading_001 = JObj [(''agv_id'', JStr ''factory/agv/001''), (''battery'', JInt 5),
                       (''status'', JStr ''MOVING'')]"

definition payload_001 :: string where
  \<open>payload_001 = ''{"agv_id":"factory/agv/001","battery":5,"status":"MOVING"}''\<close>

definition reading_plain :: json where
  "reading_plain = JObj [(''agv_id'', JStr ''agv7''), (''battery'', JInt 3),
                         (''status'', JStr ''MOVING'')]"

definition reading_bad_battery :: json where
  "reading_bad_battery = JObj [(''agv_id'', JStr ''factory/agv/007''),
                               (''battery'', JStr ''15''), (''status'', JStr ''MOVING'')]"

definition payload_bad_battery :: string where
  \<open>payload_bad_battery = ''{"agv_id":"factory/agv/007","battery":"15","status":"MOVING"}''\<close>

text \<open>
  Worlds that differ from the calm one in a single respect: the bytes are not UTF-8, the
  text is not JSON, the parser returns a given value, the database cannot be reached,
  the INSERT fails, the broker client refuses the publication.
\<close>

definition garbled :: world where
  "garbled = calm\<lparr>decode_utf8 := (\<lambda>_. None)\<rparr>"

definition unparsable :: world where
  "unparsable = calm\<lparr>json_loads := (\<lambda>_. Inl JSONDecodeError)\<rparr>"

definition parsing :: "json \<Rightarrow> world" where
  "parsing data = calm\<lparr>json_loads := (\<lambda>_. Inr data)\<rparr>"

definition db_down :: world where
  "db_down = calm\<lparr>connect_raises := True\<rparr>"

definition insert_fails :: world where
  "insert_fails = calm\<lparr>execute_raises := (\<lambda>_ _ _. True)\<rparr>"

definition broker_rejects :: world where
  "broker_rejects = calm\<lparr>publish_raises := (\<lambda>_ _. True)\<rparr>"

text \<open>
  A reading whose vehicle id is the lone surrogate U+D800, which the parser accepts in a
  string (written as an escape) and a UTF-8 standard output cannot encode; a world in
  which the line announcing the decision for that reading cannot be printed; and a world
  whose standard output takes no line at all.
\<close>

definition reading_surrogate :: json where
  "reading_surrogate = JObj [(''agv_id'', JStr [CHR 0xED, CHR 0xA0, CHR 0x80]),
                             (''battery'', JInt 5), (''status'', JStr ''MOVING'')]"

definition surrogate_unprintable :: world where
  "surrogate_unprintable = calm\<lparr>print_raises :=
     (\<lambda>d. d = Judged (JStr [CHR 0xED, CHR 0xA0, CHR 0x80]) (JInt 5))\<rparr>"

definition mute :: world where
  "mute = calm\<lparr>print_raises := (\<lambda>_. True)\<rparr>"

text \<open>The text is not JSON and the standard output takes no line; closing the connection
  fails.\<close>

definition unparsable_mute :: world where
  "unparsable_mute = unparsable\<lparr>print_raises := (\<lambda>_. True)\<rparr>"

definition close_fails :: world where
  "close_fails = calm\<lparr>close_raises := True\<rparr>"

section \<open>Basic facts\<close>

lemma split_str_not_Nil: "split_str c s \<noteq> []"
  by (induction s) (auto split: list.splits)

lemma split_str_no_sep: "c \<notin> set s \<Longrightarrow> split_str c s = [s]"
  by (induction s) auto

text \<open>What \<^verbatim>\<open>process_and_control\<close> publishes, for any argument and any world.\<close>

lemma publications_process_and_control:
  "publications (fst (process_and_control w data)) =
     (case py_get data ''agv_id'' (JStr ''Unknown'') of
        Inl e \<Rightarrow> []
      | Inr agv_id \<Rightarrow>
     (case py_get data ''battery'' (JInt 0) of
        Inl e \<Rightarrow> []
      | Inr battery \<Rightarrow>
     (case py_get data ''status'' (JStr ''Unknown'') of
        Inl e \<Rightarrow> []
      | Inr status \<Rightarrow>
     (case agv_id of
        JStr vid \<Rightarrow>
          if py_lt_int battery 20 = Inr True \<and> status = JStr ''MOVING''
             \<and> \<not> print_raises w (Judged (JStr vid) battery)
          then [(''factory/control/'' @ last (split_str (CHR ''/'') vid),
                 JObj [(''target_id'', JStr vid), (''command'', JStr ''RETURN_TO_BASE''),
                       (''reason'', JStr ''Low Battery''),
                       (''timestamp'', JFloat (time_time w))])]
          else []
      | _ \<Rightarrow> []))))"
  by (auto simp: process_and_control_def py_last_def split_str_not_Nil
        CONTROL_TOPIC_BASE_def Let_def split: sum.splits json.splits)

lemma publications_append: "publications (xs @ ys) = publications xs @ publications ys"
  by (induction xs rule: publications.induct) simp_all

lemma inserts_append: "inserts (xs @ ys) = inserts xs @ inserts ys"
  by (induction xs rule: inserts.induct) simp_all

lemma publications_save_to_db: "publications (fst (save_to_db w data)) = []"
  by (simp add: save_to_db_def save_to_db_try_def Let_def publications_append
      split: sum.splits option.splits prod.splits)

lemma publications_save_to_db_eq: "save_to_db w data = (tr, r) \<Longrightarrow> publications tr = []"
  using publications_save_to_db [of w data] by simp

lemma publications_on_message:
  "publications (fst (on_message w bytes)) =
     (case decode_utf8 w bytes of
        None \<Rightarrow> []
      | Some payload \<Rightarrow>
     (case json_loads w payload of
        Inl e \<Rightarrow> []
      | Inr data \<Rightarrow>
          if snd (save_to_db w data) = None
          then publications (fst (process_and_control w data)) else []))"
  by (auto simp: on_message_def on_message_try_def publications_append
      split: option.splits sum.splits prod.splits dest: publications_save_to_db_eq)

lemma stages_append: "stages (xs @ ys) = stages xs @ stages ys"
  by (induction xs) (simp_all split: option.splits)

lemma snd_save_to_db_cases:
  "snd (save_to_db w data) = None \<or> snd (save_to_db w data) = Some MySQLError
   \<or> snd (save_to_db w data) = Some UnicodeEncodeError"
  by (simp add: save_to_db_def save_to_db_try_def Let_def split: sum.splits)

lemma snd_save_to_db_not_JSONDecodeError:
  "snd (save_to_db w data) \<noteq> Some JSONDecodeError"
  using snd_save_to_db_cases [of w data] by auto

lemma stages_save_to_db: "set (stages (fst (save_to_db w data))) \<subseteq> {1}"
  by (simp add: save_to_db_def save_to_db_try_def Let_def split: sum.splits)

lemma stages_process_and_control:
  "stages (fst (process_and_control w data)) = []
   \<or> stages (fst (process_and_control w data)) = [3]"
  by (simp add: process_and_control_def Let_def split: sum.splits)

lemma snd_process_and_control_not_JSONDecodeError:
  "snd (process_and_control w data) \<noteq> Some JSONDecodeError"
  by (auto simp: process_and_control_def Let_def py_last_def split_str_not_Nil
      split: sum.splits json.splits elim!: py_get.elims py_lt_int.elims py_split.elims)

text \<open>Only the \<^verbatim>\<open>print\<close> of a handler can make \<^verbatim>\<open>on_message\<close> raise.\<close>

lemma snd_on_message:
  "snd (on_message w bytes) = None
   \<or> snd (on_message w bytes) = Some UnicodeEncodeError
     \<and> fst (on_message w bytes) \<noteq> []
     \<and> (\<exists>d. last (fst (on_message w bytes)) = Print d \<and> print_raises w d)"
  by (simp add: on_message_def on_message_try_def split: option.splits sum.splits prod.splits)

lemma snd_on_message_None:
  assumes "\<forall>d. fst (on_message w bytes) \<noteq> [] \<and> last (fst (on_message w bytes)) = Print d
             \<longrightarrow> \<not> print_raises w d"
  shows "snd (on_message w bytes) = None"
  using snd_on_message [of w bytes] assms by blast

lemma deliver_Cons_None:
  "snd (on_message w bytes) = None \<Longrightarrow>
     deliver ((w, bytes) # rest) = (fst (on_message w bytes) @ fst (deliver rest), snd (deliver rest))"
  by (cases "on_message w bytes") (simp split: prod.splits)


lemma on_message_decoded:
  assumes "decode_utf8 w bytes = Some payload" and "json_loads w payload = Inr data"
  shows "fst (on_message w bytes) =
     Call_save_to_db data # fst (save_to_db w data) @
       (case snd (save_to_db w data) of
          Some e \<Rightarrow> [Print (MsgError e)]
        | None \<Rightarrow>
            Call_process_and_control data # fst (process_and_control w data) @
              (case snd (process_and_control w data) of
                 None \<Rightarrow> []
               | Some e \<Rightarrow> [Print (MsgError e)]))"
proof -
  obtain t1 r1 where s: "save_to_db w data = (t1, r1)" by (cases "save_to_db w data")
  obtain t2 r2 where p: "process_and_control w data = (t2, r2)"
    by (cases "process_and_control w data")
  have r1: "r1 \<noteq> Some JSONDecodeError"
    using snd_save_to_db_not_JSONDecodeError [of w data] s by simp
  have r2: "r2 \<noteq> Some JSONDecodeError"
    using snd_process_and_control_not_JSONDecodeError [of w data] p by simp
  show ?thesis using assms r1 r2
    by (cases r1; cases r2) (auto simp: on_message_def on_message_try_def s p)
qed

lemma filter_call_save_save_to_db: "filter is_call_save (fst (save_to_db w data)) = []"
  by (simp add: save_to_db_def save_to_db_try_def Let_def split: sum.splits)

lemma filter_call_save_process_and_control:
  "filter is_call_save (fst (process_and_control w data)) = []"
  by (simp add: process_and_control_def Let_def split: sum.splits)

lemma count_connect_save_to_db:
  "count_list (fst (save_to_db w data)) Get_db_connection = 1"
  by (simp add: save_to_db_def save_to_db_try_def Let_def split: sum.splits)

lemma count_connect_process_and_control:
  "count_list (fst (process_and_control w data)) Get_db_connection = 0"
  by (simp add: process_and_control_def Let_def split: sum.splits)

lemma stages_save_to_db_replicate:
  "\<exists>k. stages (fst (save_to_db w data)) = replicate (Suc k) 1"
proof -
  have "stages (fst (save_to_db w data)) \<noteq> []"
    by (simp add: save_to_db_def save_to_db_try_def Let_def stages_append split: sum.splits)
  moreover have "replicate (length (stages (fst (save_to_db w data)))) 1
      = stages (fst (save_to_db w data))"
    using stages_save_to_db [of w data] by (intro replicate_length_same) auto
  ultimately show ?thesis
    by (cases "length (stages (fst (save_to_db w data)))") (auto, metis)
qed

lemma length_publications_process_and_control:
  "length (publications (fst (process_and_control w data))) \<le> 1"
  by (simp add: publications_process_and_control split: sum.splits json.splits)

lemma stages_case_None [simp]:
  "stages (case r of None \<Rightarrow> [] | Some e \<Rightarrow> [Print (MsgError e)]) = []"
  by (cases r) simp_all



lemma inserts_case_None [simp]:
  "inserts (case r of None \<Rightarrow> [] | Some e \<Rightarrow> [Print (MsgError e)]) = []"
  by (cases r) simp_all

lemma publications_case_None [simp]:
  "publications (case r of None \<Rightarrow> [] | Some e \<Rightarrow> [Print (MsgError e)]) = []"
  by (cases r) simp_all

lemma call_process_not_in_save_to_db:
  "Call_process_and_control d \<notin> set (fst (save_to_db w data))"
  by (simp add: save_to_db_def save_to_db_try_def Let_def split: sum.splits)


lemmas sample_defs = calm_def garbled_def unparsable_def parsing_def db_down_def
  insert_fails_def broker_rejects_def surrogate_unprintable_def mute_def
  unparsable_mute_def close_fails_def
  reading_007_def reading_001_def reading_plain_def reading_bad_battery_def
  reading_surrogate_def

lemmas program_defs = on_message_def on_message_try_def save_to_db_def save_to_db_try_def
  process_and_control_def py_last_def CONTROL_TOPIC_BASE_def Let_def

section \<open>The rule\<close>




section \<open>The command and its topic\<close>

text \<open>
  C2, as stated, fails: for the scenario reading the published dict carries the whole
  vehicle id \<^verbatim>\<open>factory/agv/007\<close> under \<^verbatim>\<open>target_id\<close>, while the last path segment,
  which only the topic uses, is \<^verbatim>\<open>007\<close>.
\<close>

theorem target_id_is_last_segment_counterexample:
  "publications (fst (process_and_control calm reading_007)) =
     [(''factory/control/007'',
       JObj [(''target_id'', JStr ''factory/agv/007''), (''command'', JStr ''RETURN_TO_BASE''),
             (''reason'', JStr ''Low Battery''), (''timestamp'', JFloat (Finite 1))])]
   \<and> last (split_str (CHR ''/'') ''factory/agv/007'') = ''007''
   \<and> JStr ''factory/agv/007'' \<noteq> JStr ''007''"
  by (simp add: process_and_control_def reading_007_def calm_def py_last_def
      CONTROL_TOPIC_BASE_def Let_def)

text \<open>
  C2, amended. Whenever a command is published, the \<^verbatim>\<open>target_id\<close> field of its payload is
  the \<^verbatim>\<open>agv_id\<close> of the inbound dict (or its default), unchanged.
\<close>

theorem target_id_is_full_vehicle_id:
  assumes "(topic, body) \<in> set (publications (fst (process_and_control w data)))"
  shows "py_get body ''target_id'' JNull = py_get data ''agv_id'' (JStr ''Unknown'')"
  using assms
  by (auto simp: publications_process_and_control split: sum.splits json.splits if_splits)


theorem target_id_is_full_vehicle_id_witness:
  "(''factory/control/007'',
     JObj [(''target_id'', JStr ''factory/agv/007''), (''command'', JStr ''RETURN_TO_BASE''),
           (''reason'', JStr ''Low Battery''), (''timestamp'', JFloat (Finite 1))])
     \<in> set (publications (fst (process_and_control calm reading_007)))
   \<and> py_get (JObj [(''target_id'', JStr ''factory/agv/007''),
                    (''command'', JStr ''RETURN_TO_BASE''),
                    (''reason'', JStr ''Low Battery''), (''timestamp'', JFloat (Finite 1))])
        ''target_id'' JNull = py_get reading_007 ''agv_id'' (JStr ''Unknown'')"
proof -
  have h: "(''factory/control/007'',
     JObj [(''target_id'', JStr ''factory/agv/007''), (''command'', JStr ''RETURN_TO_BASE''),
           (''reason'', JStr ''Low Battery''), (''timestamp'', JFloat (Finite 1))])
     \<in> set (publications (fst (process_and_control calm reading_007)))"
    by (simp add: process_and_control_def reading_007_def calm_def py_last_def
        CONTROL_TOPIC_BASE_def Let_def)
  show ?thesis using h target_id_is_full_vehicle_id [OF h] by simp
qed

text \<open>
  C7. Every command that \<^verbatim>\<open>on_message\<close> publishes goes to the topic made of the prefix
  \<^verbatim>\<open>factory/control\<close>, a \<open>/\<close> and the last segment of the vehicle id; the short id
  \<^verbatim>\<open>001\<close> gives \<^verbatim>\<open>factory/control/001\<close>.
\<close>

theorem command_topic_is_prefix_and_short_id:
  assumes "(topic, body) \<in> set (publications (fst (on_message w bytes)))"
  shows "\<exists>payload data vid.
           decode_utf8 w bytes = Some payload \<and> json_loads w payload = Inr data
         \<and> py_get data ''agv_id'' (JStr ''Unknown'') = Inr (JStr vid)
         \<and> topic = ''factory/control'' @ ''/'' @ last (split_str (CHR ''/'') vid)"
proof (cases "decode_utf8 w bytes")
  case None
  with assms show ?thesis by (simp add: publications_on_message)
next
  case (Some payload)
  show ?thesis
  proof (cases "json_loads w payload")
    case (Inl e)
    with assms Some show ?thesis by (simp add: publications_on_message)
  next
    case (Inr data)
    with assms Some
    have "(topic, body) \<in> set (publications (fst (process_and_control w data)))"
      by (simp add: publications_on_message split: if_splits)
    then obtain vid where "py_get data ''agv_id'' (JStr ''Unknown'') = Inr (JStr vid)"
      and "topic = ''factory/control'' @ ''/'' @ last (split_str (CHR ''/'') vid)"
      by (auto simp: publications_process_and_control
          split: sum.splits json.splits if_splits) metis
    with Some Inr show ?thesis by blast
  qed
qed

theorem command_topic_is_prefix_and_short_id_witness:
  "(''factory/control/001'',
     JObj [(''target_id'', JStr ''factory/agv/001''), (''command'', JStr ''RETURN_TO_BASE''),
           (''reason'', JStr ''Low Battery''), (''timestamp'', JFloat (Finite 1))])
     \<in> set (publications (fst (on_message (parsing reading_001) payload_001)))
   \<and> (\<exists>payload data vid.
         decode_utf8 (parsing reading_001) payload_001 = Some payload
       \<and> json_loads (parsing reading_001) payload = Inr data
       \<and> py_get data ''agv_id'' (JStr ''Unknown'') = Inr (JStr vid)
       \<and> ''factory/control/001'' = ''factory/control'' @ ''/'' @ last (split_str (CHR ''/'') vid))"
proof -
  have h: "(''factory/control/001'',
     JObj [(''target_id'', JStr ''factory/agv/001''), (''command'', JStr ''RETURN_TO_BASE''),
           (''reason'', JStr ''Low Battery''), (''timestamp'', JFloat (Finite 1))])
     \<in> set (publications (fst (on_message (parsing reading_001) payload_001)))"
    by (simp add: program_defs sample_defs)
  show ?thesis using h command_topic_is_prefix_and_short_id [OF h] by blast
qed

text \<open>
  C10. On a vehicle id without \<open>/\<close> the split never fails and its last piece is the whole
  id, so every command for such a reading is published to \<^verbatim>\<open>factory/control/\<close> followed
  by the full vehicle id.
\<close>

theorem short_id_of_separator_free_id:
  assumes "py_get data ''agv_id'' (JStr ''Unknown'') = Inr (JStr vid)"
      and "CHR ''/'' \<notin> set vid"
  shows "(\<exists>parts. py_split (JStr vid) (CHR ''/'') = Inr parts \<and> py_last parts = Inr vid)
       \<and> (\<forall>(topic, body) \<in> set (publications (fst (process_and_control w data))).
             topic = ''factory/control/'' @ vid)"
  using assms
  by (auto simp: publications_process_and_control split_str_no_sep py_last_def
      split: sum.splits json.splits if_splits)

theorem short_id_of_separator_free_id_witness:
  "py_get reading_plain ''agv_id'' (JStr ''Unknown'') = Inr (JStr ''agv7'')
   \<and> CHR ''/'' \<notin> set ''agv7''
   \<and> (\<exists>parts. py_split (JStr ''agv7'') (CHR ''/'') = Inr parts \<and> py_last parts = Inr ''agv7'')
   \<and> publications (fst (process_and_control calm reading_plain)) \<noteq> []
   \<and> fst (hd (publications (fst (process_and_control calm reading_plain))))
       = ''factory/control/agv7''"
proof -
  have h1: "py_get reading_plain ''agv_id'' (JStr ''Unknown'') = Inr (JStr ''agv7'')"
    by (simp add: reading_plain_def)
  have h2: "CHR ''/'' \<notin> set ''agv7''" by simp
  have h3: "publications (fst (process_and_control calm reading_plain)) \<noteq> []"
    by (simp add: process_and_control_def reading_plain_def calm_def py_last_def
        CONTROL_TOPIC_BASE_def Let_def)
  then have h4: "hd (publications (fst (process_and_control calm reading_plain)))
      \<in> set (publications (fst (process_and_control calm reading_plain)))"
    by (rule hd_in_set)
  show ?thesis
    using h1 h2 h3 h4 short_id_of_separator_free_id [OF h1 h2, of calm]
    by (auto simp: case_prod_beta)
qed

section \<open>The telemetry store\<close>

text \<open>
  C6. For every inbound JSON object and every world, the INSERT that \<^verbatim>\<open>save_to_db\<close>
  issues once it has a connection and a cursor carries the payload's values for
  \<^verbatim>\<open>agv_id\<close>, \<^verbatim>\<open>battery\<close> and \<^verbatim>\<open>status\<close>, unchanged, with \<^verbatim>\<open>Unknown\<close>, 0 and
  \<^verbatim>\<open>Unknown\<close> in the place of a missing field; it is the only INSERT, and
  \<^verbatim>\<open>conn.commit()\<close> follows exactly when the database accepted these parameters.
\<close>

theorem fields_persist_with_defaults:
  "inserts (fst (save_to_db w (JObj kvs))) =
     (if connect_raises w \<or> cursor_raises w then []
      else [(case map_of kvs ''agv_id'' of None \<Rightarrow> JStr ''Unknown'' | Some v \<Rightarrow> v,
             case map_of kvs ''battery'' of None \<Rightarrow> JInt 0 | Some v \<Rightarrow> v,
             case map_of kvs ''status'' of None \<Rightarrow> JStr ''Unknown'' | Some v \<Rightarrow> v,
             datetime_now w)])
   \<and> (Conn_commit \<in> set (fst (save_to_db w (JObj kvs))) \<longleftrightarrow>
        \<not> connect_raises w \<and> \<not> cursor_raises w
        \<and> \<not> execute_raises w
             (case map_of kvs ''agv_id'' of None \<Rightarrow> JStr ''Unknown'' | Some v \<Rightarrow> v)
             (case map_of kvs ''battery'' of None \<Rightarrow> JInt 0 | Some v \<Rightarrow> v)
             (case map_of kvs ''status'' of None \<Rightarrow> JStr ''Unknown'' | Some v \<Rightarrow> v))"
  by (simp add: save_to_db_def save_to_db_try_def Let_def inserts_append)

theorem fields_persist_with_defaults_witness:
  "inserts (fst (save_to_db calm (JObj []))) =
     [(JStr ''Unknown'', JInt 0, JStr ''Unknown'', ''2025-01-01 00:00:00'')]
   \<and> Conn_commit \<in> set (fst (save_to_db calm (JObj [])))
   \<and> inserts (fst (save_to_db calm
        (JObj [(''agv_id'', JStr ''factory/agv/007''), (''status'', JNull)]))) =
     [(JStr ''factory/agv/007'', JInt 0, JNull, ''2025-01-01 00:00:00'')]
   \<and> Conn_commit \<in> set (fst (save_to_db calm
        (JObj [(''agv_id'', JStr ''factory/agv/007''), (''status'', JNull)])))"
proof -
  have c: "connect_raises calm = False" "cursor_raises calm = False"
    "execute_raises calm = (\<lambda>_ _ _. False)" "datetime_now calm = ''2025-01-01 00:00:00''"
    by (simp_all add: calm_def)
  note a = fields_persist_with_defaults [of calm "[]"]
  note b = fields_persist_with_defaults
             [of calm "[(''agv_id'', JStr ''factory/agv/007''), (''status'', JNull)]"]
  have a1: "inserts (fst (save_to_db calm (JObj []))) =
     [(JStr ''Unknown'', JInt 0, JStr ''Unknown'', ''2025-01-01 00:00:00'')]"
    using conjunct1 [OF a] by (simp add: c)
  have a2: "Conn_commit \<in> set (fst (save_to_db calm (JObj [])))"
    using conjunct2 [OF a] by (simp add: c)
  have b1: "inserts (fst (save_to_db calm
        (JObj [(''agv_id'', JStr ''factory/agv/007''), (''status'', JNull)]))) =
     [(JStr ''factory/agv/007'', JInt 0, JNull, ''2025-01-01 00:00:00'')]"
    using conjunct1 [OF b] by (simp add: c)
  have b2: "Conn_commit \<in> set (fst (save_to_db calm
        (JObj [(''agv_id'', JStr ''factory/agv/007''), (''status'', JNull)])))"
    using conjunct2 [OF b] by (simp add: c)
  from a1 a2 b1 b2 show ?thesis by blast
qed

text \<open>
  C4, as stated, fails for a battery that is present but not an integer: the string
  \<^verbatim>\<open>15\<close> is handed to the INSERT as it is, and the comparison with 20 raises
  \<^verbatim>\<open>TypeError\<close>, so no command is published, while a battery of 0 would publish one.
\<close>

theorem malformed_battery_is_zero_counterexample:
  "fst (on_message (parsing reading_bad_battery) payload_bad_battery) =
     [Call_save_to_db reading_bad_battery, Get_db_connection, Conn_cursor,
      Cursor_execute (JStr ''factory/agv/007'') (JStr ''15'') (JStr ''MOVING'')
        ''2025-01-01 00:00:00'',
      Conn_commit,
      Print (Saved (JStr ''factory/agv/007'') (JStr ''MOVING'') (JStr ''15'')),
      Conn_close,
      Call_process_and_control reading_bad_battery,
      Print (MsgError TypeError)]
   \<and> JStr ''15'' \<noteq> JInt 0
   \<and> publications (fst (process_and_control calm
        (JObj [(''agv_id'', JStr ''factory/agv/007''), (''battery'', JInt 0),
               (''status'', JStr ''MOVING'')]))) \<noteq> []"
  by (simp add: program_defs sample_defs)

text \<open>
  C4, amended. For every inbound JSON object whose \<^verbatim>\<open>battery\<close> field is absent, the
  battery is 0: \<^verbatim>\<open>save_to_db\<close> and \<^verbatim>\<open>process_and_control\<close> behave exactly as on the
  same object with \<^verbatim>\<open>battery\<close> set to 0, and the INSERT, when it is reached, carries 0.
\<close>

theorem absent_battery_is_zero:
  assumes "map_of kvs ''battery'' = None"
  shows "save_to_db w (JObj kvs) = save_to_db w (JObj ((''battery'', JInt 0) # kvs))
       \<and> process_and_control w (JObj kvs)
           = process_and_control w (JObj ((''battery'', JInt 0) # kvs))
       \<and> inserts (fst (save_to_db w (JObj kvs))) =
           (if connect_raises w \<or> cursor_raises w then []
            else [(case map_of kvs ''agv_id'' of None \<Rightarrow> JStr ''Unknown'' | Some v \<Rightarrow> v,
                   JInt 0,
                   case map_of kvs ''status'' of None \<Rightarrow> JStr ''Unknown'' | Some v \<Rightarrow> v,
                   datetime_now w)])"
  using assms
  by (simp add: save_to_db_def save_to_db_try_def process_and_control_def inserts_append Let_def)

theorem absent_battery_is_zero_witness:
  "map_of [(''agv_id'', JStr ''factory/agv/007''), (''status'', JStr ''MOVING'')] ''battery'' = None
   \<and> inserts (fst (save_to_db calm
        (JObj [(''agv_id'', JStr ''factory/agv/007''), (''status'', JStr ''MOVING'')]))) =
       [(JStr ''factory/agv/007'', JInt 0, JStr ''MOVING'', ''2025-01-01 00:00:00'')]
   \<and> process_and_control calm
        (JObj [(''agv_id'', JStr ''factory/agv/007''), (''status'', JStr ''MOVING'')])
     = process_and_control calm
        (JObj [(''battery'', JInt 0), (''agv_id'', JStr ''factory/agv/007''),
               (''status'', JStr ''MOVING'')])"
proof -
  have h: "map_of [(''agv_id'', JStr ''factory/agv/007''), (''status'', JStr ''MOVING'')]
             ''battery'' = None"
    by simp
  have c: "connect_raises calm = False" "cursor_raises calm = False"
    "datetime_now calm = ''2025-01-01 00:00:00''"
    by (simp_all add: calm_def)
  note r = absent_battery_is_zero [OF h, of calm]
  have i: "inserts (fst (save_to_db calm
        (JObj [(''agv_id'', JStr ''factory/agv/007''), (''status'', JStr ''MOVING'')]))) =
       [(JStr ''factory/agv/007'', JInt 0, JStr ''MOVING'', ''2025-01-01 00:00:00'')]"
    using conjunct2 [OF conjunct2 [OF r]] by (simp add: c)
  show ?thesis using h i conjunct1 [OF conjunct2 [OF r]] by blast
qed

text \<open>
  C9. Whenever \<^verbatim>\<open>get_db_connection\<close> returned a connection, \<^verbatim>\<open>save_to_db\<close> closes it
  exactly once, as the last call it makes, whatever the argument and whichever later
  step raises.
\<close>

theorem connection_released_on_every_path:
  assumes "\<not> connect_raises w"
  shows "hd (fst (save_to_db w data)) = Get_db_connection
       \<and> last (fst (save_to_db w data)) = Conn_close
       \<and> count_list (fst (save_to_db w data)) Get_db_connection = 1
       \<and> count_list (fst (save_to_db w data)) Conn_close = 1"
  using assms
  by (simp add: save_to_db_def save_to_db_try_def Let_def split: sum.splits)

theorem connection_released_on_every_path_witness:
  "\<not> connect_raises insert_fails
   \<and> fst (save_to_db insert_fails reading_007) =
       [Get_db_connection, Conn_cursor,
        Cursor_execute (JStr ''factory/agv/007'') (JInt 15) (JStr ''MOVING'')
          ''2025-01-01 00:00:00'',
        Print (SaveError MySQLError), Conn_close]
   \<and> last (fst (save_to_db insert_fails reading_007)) = Conn_close
   \<and> count_list (fst (save_to_db insert_fails reading_007))
        Conn_close = 1"
proof -
  have h: "\<not> connect_raises insert_fails"
    by (simp add: sample_defs)
  have t: "fst (save_to_db insert_fails reading_007) =
       [Get_db_connection, Conn_cursor,
        Cursor_execute (JStr ''factory/agv/007'') (JInt 15) (JStr ''MOVING'')
          ''2025-01-01 00:00:00'',
        Print (SaveError MySQLError), Conn_close]"
    by (simp add: program_defs sample_defs)
  show ?thesis
    using h t connection_released_on_every_path [OF h, of reading_007] by simp
qed

section \<open>The ingestion loop\<close>




text \<open>
  C5, as stated, fails twice. With the database unreachable \<^verbatim>\<open>save_to_db\<close> prints the
  error and returns, and the rule and the publication run for the same message. And
  where the standard output takes no line, the exception that leaves \<^verbatim>\<open>save_to_db\<close> is
  caught by \<^verbatim>\<open>on_message\<close>, whose own \<^verbatim>\<open>print\<close> raises: the exception leaves the
  callback and the loop never hands over the next message.
\<close>

theorem store_exception_ends_processing_counterexample:
  "fst (on_message db_down payload_007) =
     [Call_save_to_db reading_007, Get_db_connection, Print (SaveError MySQLError),
      Call_process_and_control reading_007,
      Print (Judged (JStr ''factory/agv/007'') (JInt 15)),
      Client_publish ''factory/control/007''
        (JObj [(''target_id'', JStr ''factory/agv/007''), (''command'', JStr ''RETURN_TO_BASE''),
               (''reason'', JStr ''Low Battery''), (''timestamp'', JFloat (Finite 1))]),
      Print (Sent ''factory/control/007'')]
   \<and> snd (save_to_db mute reading_007) = Some UnicodeEncodeError
   \<and> snd (on_message mute payload_007) = Some UnicodeEncodeError
   \<and> deliver [(mute, payload_007), (calm, payload_007)] =
       ([Call_save_to_db reading_007, Get_db_connection, Conn_cursor,
         Cursor_execute (JStr ''factory/agv/007'') (JInt 15) (JStr ''MOVING'')
           ''2025-01-01 00:00:00'',
         Conn_commit,
         Print (Saved (JStr ''factory/agv/007'') (JStr ''MOVING'') (JInt 15)),
         Print (SaveError UnicodeEncodeError), Conn_close,
         Print (MsgError UnicodeEncodeError)],
        Some UnicodeEncodeError)"
  by (simp add: program_defs sample_defs)

text \<open>
  C5, amended. For every decoded message: an exception raised in the \<^verbatim>\<open>try\<close> block of
  \<^verbatim>\<open>save_to_db\<close> is caught and printed there, and whenever \<^verbatim>\<open>save_to_db\<close> then returns
  normally \<^verbatim>\<open>process_and_control\<close> runs and publishes what it would have published; an
  exception that leaves \<^verbatim>\<open>save_to_db\<close> is caught by \<^verbatim>\<open>on_message\<close> and printed, and
  neither the rule nor a publication follows; an exception of \<^verbatim>\<open>client.publish\<close> is
  caught by \<^verbatim>\<open>on_message\<close> and printed, and nothing follows it. Nothing is retried: one
  call of \<^verbatim>\<open>save_to_db\<close>, one connection attempt and at most one publication per
  message. If the last line printed is printed without error, \<^verbatim>\<open>on_message\<close> lets no
  exception out and the loop goes on with the next message.
\<close>

theorem store_and_publish_exceptions_are_contained:
  assumes "decode_utf8 w bytes = Some payload" and "json_loads w payload = Inr data"
  shows "(\<forall>e. snd (snd (save_to_db_try w data)) = Some e \<longrightarrow>
             Print (SaveError e) \<in> set (fst (on_message w bytes)))
       \<and> (snd (save_to_db w data) = None \<longrightarrow>
             Call_process_and_control data \<in> set (fst (on_message w bytes))
           \<and> publications (fst (on_message w bytes))
               = publications (fst (process_and_control w data)))
       \<and> (\<forall>e. snd (save_to_db w data) = Some e \<longrightarrow>
             last (fst (on_message w bytes)) = Print (MsgError e)
           \<and> Call_process_and_control data \<notin> set (fst (on_message w bytes))
           \<and> publications (fst (on_message w bytes)) = [])
       \<and> (snd (save_to_db w data) = None \<and> snd (process_and_control w data) = Some ValueError
            \<longrightarrow> (\<exists>pre topic body. fst (on_message w bytes)
                    = pre @ [Client_publish topic body, Print (MsgError ValueError)]))
       \<and> length (filter is_call_save (fst (on_message w bytes))) = 1
       \<and> count_list (fst (on_message w bytes)) Get_db_connection = 1
       \<and> length (publications (fst (on_message w bytes))) \<le> 1
       \<and> ((\<forall>d. last (fst (on_message w bytes)) = Print d \<longrightarrow> \<not> print_raises w d) \<longrightarrow>
            snd (on_message w bytes) = None
          \<and> deliver ((w, bytes) # rest) =
              (fst (on_message w bytes) @ fst (deliver rest), snd (deliver rest)))"
proof -
  note d = on_message_decoded [OF assms]
  have 1: "Print (SaveError e) \<in> set (fst (on_message w bytes))"
    if h: "snd (snd (save_to_db_try w data)) = Some e" for e
  proof -
    have "Print (SaveError e) \<in> set (fst (save_to_db w data))"
      using h by (cases "save_to_db_try w data") (simp add: save_to_db_def)
    then show ?thesis by (simp add: d)
  qed
  have 2: "Call_process_and_control data \<in> set (fst (on_message w bytes))
           \<and> publications (fst (on_message w bytes))
               = publications (fst (process_and_control w data))"
    if h: "snd (save_to_db w data) = None"
    by (simp add: d h publications_append publications_save_to_db)
  have 3: "last (fst (on_message w bytes)) = Print (MsgError e)
           \<and> Call_process_and_control data \<notin> set (fst (on_message w bytes))
           \<and> publications (fst (on_message w bytes)) = []"
    if h: "snd (save_to_db w data) = Some e" for e
    using call_process_not_in_save_to_db [of data w data]
    by (simp add: d h publications_append publications_save_to_db)
  have 4: "\<exists>pre topic body. fst (on_message w bytes)
                    = pre @ [Client_publish topic body, Print (MsgError ValueError)]"
    if h: "snd (save_to_db w data) = None" "snd (process_and_control w data) = Some ValueError"
  proof -
    have "\<exists>pre topic body. fst (process_and_control w data) = pre @ [Client_publish topic body]"
      using h(2)
      by (auto simp: process_and_control_def Let_def py_last_def
          split: sum.splits if_splits elim!: py_get.elims py_lt_int.elims py_split.elims)
    then obtain pre topic body
      where "fst (process_and_control w data) = pre @ [Client_publish topic body]" by blast
    then have "fst (on_message w bytes) =
        (Call_save_to_db data # fst (save_to_db w data) @ Call_process_and_control data # pre)
        @ [Client_publish topic body, Print (MsgError ValueError)]"
      by (simp add: d h)
    then show ?thesis by blast
  qed
  have 5: "length (filter is_call_save (fst (on_message w bytes))) = 1"
    by (simp add: d filter_call_save_save_to_db filter_call_save_process_and_control
        split: option.splits)
  have 6: "count_list (fst (on_message w bytes)) Get_db_connection = 1"
    by (simp add: d count_connect_save_to_db count_connect_process_and_control
        split: option.splits)
  have 7: "length (publications (fst (on_message w bytes))) \<le> 1"
    using length_publications_process_and_control [of w data]
    by (simp add: d publications_append publications_save_to_db split: option.splits)
  have 8: "snd (on_message w bytes) = None
      \<and> deliver ((w, bytes) # rest) =
          (fst (on_message w bytes) @ fst (deliver rest), snd (deliver rest))"
    if h: "\<forall>d. last (fst (on_message w bytes)) = Print d \<longrightarrow> \<not> print_raises w d"
  proof -
    have n: "snd (on_message w bytes) = None"
      using h by (intro snd_on_message_None) blast
    show ?thesis using n deliver_Cons_None [OF n, of rest] by blast
  qed
  from 1 2 3 4 5 6 7 8 show ?thesis by blast
qed

theorem store_and_publish_exceptions_are_contained_witness:
  "decode_utf8 db_down payload_007 = Some payload_007
   \<and> json_loads db_down payload_007 = Inr reading_007
   \<and> snd (snd (save_to_db_try db_down reading_007)) = Some MySQLError
   \<and> snd (save_to_db db_down reading_007) = None
   \<and> Print (SaveError MySQLError) \<in> set (fst (on_message db_down payload_007))
   \<and> Call_process_and_control reading_007 \<in> set (fst (on_message db_down payload_007))
   \<and> snd (on_message db_down payload_007) = None
   \<and> snd (save_to_db close_fails reading_007) = Some MySQLError
   \<and> last (fst (on_message close_fails payload_007)) = Print (MsgError MySQLError)
   \<and> Call_process_and_control reading_007 \<notin> set (fst (on_message close_fails payload_007))
   \<and> publications (fst (on_message close_fails payload_007)) = []
   \<and> snd (on_message close_fails payload_007) = None
   \<and> snd (process_and_control broker_rejects reading_007) = Some ValueError
   \<and> (\<exists>pre topic body. fst (on_message broker_rejects payload_007)
         = pre @ [Client_publish topic body, Print (MsgError ValueError)])
   \<and> snd (on_message broker_rejects payload_007) = None"
proof -
  have a: "decode_utf8 db_down payload_007 = Some payload_007"
    "json_loads db_down payload_007 = Inr reading_007"
    by (simp_all add: sample_defs)
  have a2: "snd (snd (save_to_db_try db_down reading_007)) = Some MySQLError"
    "snd (save_to_db db_down reading_007) = None"
    "\<forall>d. \<not> print_raises db_down d"
    by (simp_all add: program_defs sample_defs)
  have b: "decode_utf8 broker_rejects payload_007 = Some payload_007"
    "json_loads broker_rejects payload_007 = Inr reading_007"
    by (simp_all add: sample_defs)
  have b2: "snd (save_to_db broker_rejects reading_007) = None"
    "snd (process_and_control broker_rejects reading_007) = Some ValueError"
    "\<forall>d. \<not> print_raises broker_rejects d"
    by (simp_all add: program_defs sample_defs)
  have c: "decode_utf8 close_fails payload_007 = Some payload_007"
    "json_loads close_fails payload_007 = Inr reading_007"
    by (simp_all add: sample_defs)
  have c2: "snd (save_to_db close_fails reading_007) = Some MySQLError"
    "\<forall>d. \<not> print_raises close_fails d"
    by (simp_all add: program_defs sample_defs)
  have a': "Print (SaveError MySQLError) \<in> set (fst (on_message db_down payload_007))
     \<and> Call_process_and_control reading_007 \<in> set (fst (on_message db_down payload_007))
     \<and> snd (on_message db_down payload_007) = None"
    using store_and_publish_exceptions_are_contained [OF a, of "[]"] a2 by blast
  have b': "(\<exists>pre topic body. fst (on_message broker_rejects payload_007)
         = pre @ [Client_publish topic body, Print (MsgError ValueError)])
     \<and> snd (on_message broker_rejects payload_007) = None"
    using store_and_publish_exceptions_are_contained [OF b, of "[]"] b2 by blast
  have c': "last (fst (on_message close_fails payload_007)) = Print (MsgError MySQLError)
     \<and> Call_process_and_control reading_007 \<notin> set (fst (on_message close_fails payload_007))
     \<and> publications (fst (on_message close_fails payload_007)) = []
     \<and> snd (on_message close_fails payload_007) = None"
    using store_and_publish_exceptions_are_contained [OF c, of "[]"] c2 by blast
  from a a2 a' b2 b' c2 c' show ?thesis by blast
qed

text \<open>
  C8. For every decoded message the trace starts with the one call of \<^verbatim>\<open>save_to_db\<close>;
  the stages of its events are a run of store events, then at most one entry into
  \<^verbatim>\<open>process_and_control\<close>, then at most one publication, so no publication precedes
  the store; and the rule is evaluated whenever \<^verbatim>\<open>save_to_db\<close> returns.
\<close>

theorem stages_in_fixed_order:
  assumes "decode_utf8 w bytes = Some payload" and "json_loads w payload = Inr data"
  shows "hd (fst (on_message w bytes)) = Call_save_to_db data
       \<and> length (filter is_call_save (fst (on_message w bytes))) = 1
       \<and> (\<exists>k. stages (fst (on_message w bytes))
                 \<in> {replicate (Suc k) 1, replicate (Suc k) 1 @ [2],
                     replicate (Suc k) 1 @ [2, 3]})
       \<and> (snd (save_to_db w data) = None
            \<longrightarrow> Call_process_and_control data \<in> set (fst (on_message w bytes)))"
proof -
  note d = on_message_decoded [OF assms]
  obtain k where k: "stages (fst (save_to_db w data)) = replicate k 1"
    using stages_save_to_db_replicate [of w data] by blast
  have 1: "hd (fst (on_message w bytes)) = Call_save_to_db data"
    by (simp add: d)
  have 2: "length (filter is_call_save (fst (on_message w bytes))) = 1"
    by (simp add: d filter_call_save_save_to_db filter_call_save_process_and_control
        split: option.splits)
  have 3: "stages (fst (on_message w bytes))
             \<in> {replicate (Suc k) 1, replicate (Suc k) 1 @ [2], replicate (Suc k) 1 @ [2, 3]}"
    using stages_process_and_control [of w data]
    by (auto simp: d stages_append k split: option.splits)
  have 4: "snd (save_to_db w data) = None
            \<longrightarrow> Call_process_and_control data \<in> set (fst (on_message w bytes))"
    by (simp add: d)
  from 1 2 3 4 show ?thesis by blast
qed

theorem stages_in_fixed_order_witness:
  "decode_utf8 calm payload_007 = Some payload_007
   \<and> json_loads calm payload_007 = Inr reading_007
   \<and> snd (save_to_db calm reading_007) = None
   \<and> stages (fst (on_message calm payload_007)) = [1, 1, 1, 1, 1, 1, 2, 3]
   \<and> hd (fst (on_message calm payload_007)) = Call_save_to_db reading_007
   \<and> length (filter is_call_save (fst (on_message calm payload_007))) = 1
   \<and> Call_process_and_control reading_007 \<in> set (fst (on_message calm payload_007))"
proof -
  have a: "decode_utf8 calm payload_007 = Some payload_007" "json_loads calm payload_007 = Inr reading_007"
    by (simp_all add: sample_defs)
  have a2: "snd (save_to_db calm reading_007) = None"
    by (simp add: program_defs sample_defs)
  have s: "stages (fst (on_message calm payload_007)) = [1, 1, 1, 1, 1, 1, 2, 3]"
    by (simp add: program_defs sample_defs)
  have "hd (fst (on_message calm payload_007)) = Call_save_to_db reading_007
   \<and> length (filter is_call_save (fst (on_message calm payload_007))) = 1
   \<and> Call_process_and_control reading_007 \<in> set (fst (on_message calm payload_007))"
    using stages_in_fixed_order [OF a] a2 by blast
  with a a2 s show ?thesis by blast
qed

end
